theory Spec2Isabelle
  imports Complex_Main "HOL-Library.Word" "HOL-Library.AList"
begin

section \<open>Python values, exceptions and dictionaries\<close>

text \<open>
  The development embeds the Univox adapters (\<^verbatim>\<open>providers/deepgram.py\<close>,
  \<^verbatim>\<open>service.py\<close>, \<^verbatim>\<open>vad/cobra.py\<close> and \<^verbatim>\<open>create_vad\<close> of
  \<^verbatim>\<open>examples/basic_vad_pipecat.py\<close>) as HOL functions.

  Conventions.
  \<^item> An exception is a value of type \<open>exn\<close>; it stands for an instance of Python's
    \<^verbatim>\<open>Exception\<close> class, which is what every \<^verbatim>\<open>except Exception\<close> of the sources
    catches. Interpreter-level signals that are not \<^verbatim>\<open>Exception\<close>s are outside the model.
  \<^item> A method that mutates \<^verbatim>\<open>self\<close> takes the object state and returns the new one,
    together with the exception that escaped it, if any (\<open>exn option \<times> state\<close>).
  \<^item> The vendor SDK, the callback sink and the host framework are external. Every call
    made to them is appended to a call log carried in the state, and what the SDK answers
    (the result of \<^verbatim>\<open>start\<close>, an exception it raises) is an argument of the model.
  \<^item> Logging through \<^verbatim>\<open>loguru\<close> is not modelled.
\<close>

datatype exn =
    ValueError string
  | ModuleNotFoundError string
  | TypeError string
  | RuntimeError string

text \<open>\<^verbatim>\<open>str(e)\<close>: the message of the exception.\<close>

fun str_exn :: "exn \<Rightarrow> string" where
  "str_exn (ValueError m) = m"
| "str_exn (ModuleNotFoundError m) = m"
| "str_exn (TypeError m) = m"
| "str_exn (RuntimeError m) = m"

text \<open>
  A member of pipecat's \<^verbatim>\<open>Language\<close> enum, identified by its \<^verbatim>\<open>.value\<close>
  (\<^verbatim>\<open>Language.EN.value == "en"\<close>).
\<close>

datatype language = Language (lang_value: string)

definition EN :: language where
  "EN = Language ''en''"

text \<open>The values stored in the settings mapping.\<close>

datatype pyval =
    VNone
  | VBool bool
  | VInt int
  | VStr string
  | VLang language

text \<open>
  A Python \<^verbatim>\<open>dict\<close> with string keys, as an association list in insertion order.
  \<^verbatim>\<open>d.get(k)\<close> is \<open>dict_get\<close>, \<^verbatim>\<open>d[k] = v\<close> is \<open>dict_set\<close> (the value is replaced
  in place when the key exists, the pair is appended otherwise) and \<^verbatim>\<open>d.update(other)\<close>
  sets the pairs of \<open>other\<close> one after another.
\<close>

type_synonym dict = "(string \<times> pyval) list"

definition dict_get :: "dict \<Rightarrow> string \<Rightarrow> pyval option" where
  "dict_get d k = map_of d k"

definition dict_set :: "dict \<Rightarrow> string \<Rightarrow> pyval \<Rightarrow> dict" where
  "dict_set d k v = AList.update k v d"

definition dict_update :: "dict \<Rightarrow> dict \<Rightarrow> dict" where
  "dict_update d other = fold (\<lambda>(k, v) acc. dict_set acc k v) other d"

section \<open>The Deepgram provider: construction\<close>

text \<open>
  \<^verbatim>\<open>LiveOptions\<close> is the SDK's option object. It is represented by the keyword arguments
  that were given to it, and \<^verbatim>\<open>to_dict()\<close> returns exactly those (the SDK leaves unset
  fields out of the dictionary). The defaults are the nine arguments of
  \<^verbatim>\<open>DeepgramProvider.__init__\<close>, lines 46 to 56.
\<close>

definition default_options :: dict where
  "default_options =
     [(''encoding'', VStr ''linear16''),
      (''language'', VLang EN),
      (''model'', VStr ''nova-3-general''),
      (''channels'', VInt 1),
      (''interim_results'', VBool True),
      (''smart_format'', VBool True),
      (''punctuate'', VBool True),
      (''profanity_filter'', VBool True),
      (''vad_events'', VBool False)]"

definition to_dict :: "dict \<Rightarrow> dict" where
  "to_dict opts = opts"

text \<open>\<^verbatim>\<open>default_options.model\<close>.\<close>

definition default_model :: pyval where
  "default_model = VStr ''nova-3-general''"

text \<open>
  Lines 58 to 68 of \<^verbatim>\<open>__init__\<close>: the caller's options (\<open>None\<close> when no
  \<^verbatim>\<open>live_options\<close> was passed) are merged over the defaults, the model \<^verbatim>\<open>"None"\<close> is
  replaced by the default model, and a \<^verbatim>\<open>Language\<close> member is replaced by its value.
\<close>

definition merge_options :: "dict option \<Rightarrow> dict" where
  "merge_options live_options =
     (let merged = to_dict default_options;
          merged =
            (case live_options of
               None \<Rightarrow> merged
             | Some lo \<Rightarrow>
                 (let merged = dict_update merged (to_dict lo)
                  in if dict_get merged ''model'' = Some (VStr ''None'')
                     then dict_set merged ''model'' default_model
                     else merged))
      in (case dict_get merged ''language'' of
            Some (VLang l) \<Rightarrow> dict_set merged ''language'' (VStr (lang_value l))
          | _ \<Rightarrow> merged))"


section \<open>The Deepgram provider: state and external calls\<close>

text \<open>What the vendor sends in a transcript event (\<^verbatim>\<open>LiveResultResponse\<close>).\<close>

record alternative =
  transcript :: string
  languages :: "string list option"

record channel =
  alternatives :: "alternative list"

record live_result =
  channel :: channel
  r_is_final :: bool

text \<open>\<^verbatim>\<open>TranscriptEvent\<close> of \<^verbatim>\<open>provider.py\<close>; its field \<^verbatim>\<open>text\<close> is \<open>evt_text\<close> here.\<close>

record TranscriptEvent =
  evt_text :: string
  is_final :: bool
  language :: "language option"
  provider_payload :: live_result

text \<open>A callback sink (\<^verbatim>\<open>UnivoxCallbacks\<close>), identified by a number.\<close>

datatype sink = Sink nat

datatype transcription_event = Transcript | Error

text \<open>
  The calls the provider makes to the SDK and to its callback sink, in the order they are
  made.
\<close>

datatype call =
    Listen_v1
  | On transcription_event
  | Start dict "dict option"
  | Finish
  | Send "8 word list"
  | Finalize
  | On_interim sink TranscriptEvent
  | On_final sink TranscriptEvent
  | On_error sink string

text \<open>
  The connection handle (\<^verbatim>\<open>AsyncListenWebSocketClient\<close>), with the state of its
  websocket: the socket of a handle obtained from \<^verbatim>\<open>listen.asyncwebsocket.v("1")\<close> is
  not open, and after \<^verbatim>\<open>start\<close> it is open exactly when \<^verbatim>\<open>start\<close> returned true.
\<close>

datatype handle = Handle (socket_open: bool)

text \<open>
  \<^verbatim>\<open>self._connection.is_connected\<close> as the provider reads it, lines 102 and 144. On the
  SDK's handle \<^verbatim>\<open>is_connected\<close> is a coroutine method, and the provider reads the
  attribute without calling it: what it tests is the bound method object, which is true
  whatever the state of the socket.
\<close>

definition is_connected :: "handle \<Rightarrow> bool" where
  "is_connected h = True"

record provider =
  settings :: dict
  addons :: "dict option"
  api_key :: string
  base_url :: string
  connection :: "handle option"
  callbacks :: "sink option"
  sample_rate :: int
  calls :: "call list"

text \<open>
  What the SDK answers to the awaited calls of one provider operation: \<^verbatim>\<open>start\<close>
  returns a boolean or raises; \<^verbatim>\<open>finish\<close>, \<^verbatim>\<open>send\<close> and \<^verbatim>\<open>finalize\<close> return (their
  result is ignored by the provider) or raise.
\<close>

record sdk =
  start_outcome :: "exn + bool"
  finish_outcome :: "exn option"
  send_outcome :: "exn option"
  finalize_outcome :: "exn option"

definition log_call :: "call \<Rightarrow> provider \<Rightarrow> provider" where
  "log_call c s = s\<lparr>calls := calls s @ [c]\<rparr>"

definition DeepgramProvider_init ::
  "string \<Rightarrow> string \<Rightarrow> dict option \<Rightarrow> dict option \<Rightarrow> provider" where
  "DeepgramProvider_init key url live_options ad =
     \<lparr>settings = merge_options live_options,
      addons = ad,
      api_key = key,
      base_url = url,
      connection = None,
      callbacks = None,
      sample_rate = 0,
      calls = []\<rparr>"

definition set_callbacks :: "sink \<Rightarrow> provider \<Rightarrow> provider" where
  "set_callbacks cb s = s\<lparr>callbacks := Some cb\<rparr>"

section \<open>The Deepgram provider: connection lifecycle\<close>

definition connection_failed_message :: string where
  "connection_failed_message = ''Deepgram connection failed. Check API key and network.''"

text \<open>\<^verbatim>\<open>_connect\<close>, lines 121 to 141.\<close>

definition connect :: "sdk \<Rightarrow> provider \<Rightarrow> exn option \<times> provider" where
  "connect k s =
     (let s = s\<lparr>connection := Some (Handle False)\<rparr>;
          s = log_call Listen_v1 s;
          s = log_call (On Transcript) s;
          s = log_call (On Error) s;
          s = log_call (Start (settings s) (addons s)) s
      in (case start_outcome k of
            Inl e \<Rightarrow> (Some e, s)
          | Inr started \<Rightarrow>
              (let s = s\<lparr>connection := Some (Handle started)\<rparr>
               in if \<not> started then
                    (case callbacks s of
                       Some cb \<Rightarrow> (None, log_call (On_error cb connection_failed_message) s)
                     | None \<Rightarrow> (None, s))
                  else (None, s))))"

text \<open>\<^verbatim>\<open>_disconnect\<close>, lines 143 to 147.\<close>

definition disconnect :: "sdk \<Rightarrow> provider \<Rightarrow> exn option \<times> provider" where
  "disconnect k s =
     (case connection s of
        Some h \<Rightarrow>
          if is_connected h then
            (let s = log_call Finish s
             in (case finish_outcome k of
                   Some e \<Rightarrow> (Some e, s)
                 | None \<Rightarrow> (None, s\<lparr>connection := None\<rparr>)))
          else (None, s\<lparr>connection := None\<rparr>)
      | None \<Rightarrow> (None, s\<lparr>connection := None\<rparr>))"

text \<open>\<^verbatim>\<open>_reconnect\<close>, lines 149 to 151.\<close>

definition reconnect :: "sdk \<Rightarrow> provider \<Rightarrow> exn option \<times> provider" where
  "reconnect k s =
     (case disconnect k s of
        (Some e, s) \<Rightarrow> (Some e, s)
      | (None, s) \<Rightarrow> connect k s)"

definition start :: "sdk \<Rightarrow> int \<Rightarrow> provider \<Rightarrow> exn option \<times> provider" where
  "start k rate s =
     (let s = s\<lparr>sample_rate := rate\<rparr>;
          s = s\<lparr>settings := dict_set (settings s) ''sample_rate'' (VInt (sample_rate s))\<rparr>
      in connect k s)"

definition stop :: "sdk \<Rightarrow> provider \<Rightarrow> exn option \<times> provider" where
  "stop k s = disconnect k s"

definition cancel :: "sdk \<Rightarrow> provider \<Rightarrow> exn option \<times> provider" where
  "cancel k s = disconnect k s"

text \<open>\<^verbatim>\<open>send_audio\<close>, lines 101 to 104.\<close>

definition send_audio :: "sdk \<Rightarrow> 8 word list \<Rightarrow> provider \<Rightarrow> exn option \<times> provider" where
  "send_audio k audio s =
     (case connection s of
        None \<Rightarrow> (None, s)
      | Some h \<Rightarrow>
          if \<not> is_connected h then (None, s)
          else (send_outcome k, log_call (Send audio) s))"

text \<open>\<^verbatim>\<open>finalize_utterance\<close>, lines 106 to 109.\<close>

definition finalize_utterance :: "sdk \<Rightarrow> provider \<Rightarrow> exn option \<times> provider" where
  "finalize_utterance k s =
     (case connection s of
        None \<Rightarrow> (None, s)
      | Some h \<Rightarrow> (finalize_outcome k, log_call Finalize s))"

text \<open>
  \<^verbatim>\<open>set_language\<close> and \<^verbatim>\<open>set_model\<close>, lines 111 to 117. The language argument is a
  \<^verbatim>\<open>Language\<close> member (stored by its value) or any other value (stored as it is).
\<close>

definition set_language :: "sdk \<Rightarrow> pyval \<Rightarrow> provider \<Rightarrow> exn option \<times> provider" where
  "set_language k lang s =
     (let v = (case lang of VLang l \<Rightarrow> VStr (lang_value l) | _ \<Rightarrow> lang);
          s = s\<lparr>settings := dict_set (settings s) ''language'' v\<rparr>
      in reconnect k s)"

definition set_model :: "sdk \<Rightarrow> string \<Rightarrow> provider \<Rightarrow> exn option \<times> provider" where
  "set_model k model s =
     (let s = s\<lparr>settings := dict_set (settings s) ''model'' (VStr model)\<rparr>
      in reconnect k s)"

section \<open>The Deepgram provider: inbound transcript events\<close>

text \<open>
  \<^verbatim>\<open>Language(x)\<close> raises \<^verbatim>\<open>ValueError\<close> when \<open>x\<close> is not the value of a member; which
  strings are members is decided by pipecat, so it is a parameter.
\<close>

definition make_language :: "(string \<Rightarrow> bool) \<Rightarrow> string \<Rightarrow> exn + language" where
  "make_language is_member x =
     (if is_member x then Inr (Language x) else Inl (ValueError x))"

text \<open>
  \<^verbatim>\<open>_on_message\<close>, lines 160 to 187. The SDK calls the handler with the keyword
  argument \<^verbatim>\<open>result\<close>.
\<close>

definition on_message :: "(string \<Rightarrow> bool) \<Rightarrow> live_result \<Rightarrow> provider \<Rightarrow> provider" where
  "on_message is_member result s =
     (case callbacks s of
        None \<Rightarrow> s
      | Some cb \<Rightarrow>
          (case alternatives (channel result) of
             [] \<Rightarrow> s
           | alt # _ \<Rightarrow>
               (let fin = r_is_final result;
                    tr = transcript alt;
                    lang =
                      (case languages alt of
                         None \<Rightarrow> None
                       | Some [] \<Rightarrow> None
                       | Some (l # _) \<Rightarrow>
                           (case make_language is_member l of
                              Inl e \<Rightarrow> None
                            | Inr v \<Rightarrow> Some v))
                in if tr \<noteq> [] then
                     (let evt = \<lparr>evt_text = tr, is_final = fin, language = lang,
                                 provider_payload = result\<rparr>
                      in if fin then log_call (On_final cb evt) s
                         else log_call (On_interim cb evt) s)
                   else s)))"


section \<open>The STT service\<close>

text \<open>
  The frames \<^verbatim>\<open>UnivoxSTTService.process_frame\<close> distinguishes, and the calls it makes:
  to the framework's \<^verbatim>\<open>STTService.process_frame\<close>, to the provider and to
  \<^verbatim>\<open>push_error\<close>.
\<close>

datatype frame =
    StartFrame
  | UserStartedSpeakingFrame
  | UserStoppedSpeakingFrame
  | InputAudioRawFrame "8 word list"
  | ErrorFrame string
  | OtherFrame nat

datatype service_call =
    Super_process_frame frame
  | Provider_finalize_utterance
  | Push_error frame

text \<open>
  \<^verbatim>\<open>process_frame\<close>, lines 95 to 106 of \<^verbatim>\<open>service.py\<close>. The service holds any
  \<^verbatim>\<open>UnivoxProvider\<close>; what its \<^verbatim>\<open>finalize_utterance\<close> does when called (returns, or
  raises an exception) is the first argument.
\<close>

definition process_frame ::
  "exn option \<Rightarrow> frame \<Rightarrow> service_call list \<Rightarrow> exn option \<times> service_call list" where
  "process_frame finalize_result fr trace =
     (let trace = trace @ [Super_process_frame fr]
      in (case fr of
            UserStartedSpeakingFrame \<Rightarrow> (None, trace)
          | UserStoppedSpeakingFrame \<Rightarrow>
              (let trace = trace @ [Provider_finalize_utterance]
               in (case finalize_result of
                     None \<Rightarrow> (None, trace)
                   | Some e \<Rightarrow>
                       (None, trace @ [Push_error
                          (ErrorFrame (''Univox finalize error: '' @ str_exn e))])))
          | _ \<Rightarrow> (None, trace)))"

text \<open>
  The pipeline hands the service one frame after another; an exception that escapes
  \<^verbatim>\<open>process_frame\<close> ends the delivery. Each frame comes with what the provider's
  \<^verbatim>\<open>finalize_utterance\<close> would do at that moment.
\<close>

fun process_frames ::
  "(exn option \<times> frame) list \<Rightarrow> service_call list \<Rightarrow> exn option \<times> service_call list" where
  "process_frames [] trace = (None, trace)"
| "process_frames ((finalize_result, fr) # rest) trace =
     (case process_frame finalize_result fr trace of
        (Some e, trace) \<Rightarrow> (Some e, trace)
      | (None, trace) \<Rightarrow> process_frames rest trace)"

text \<open>The frames that reached \<^verbatim>\<open>process_frame\<close>, read off the log.\<close>

fun processed :: "service_call list \<Rightarrow> frame list" where
  "processed [] = []"
| "processed (Super_process_frame fr # cs) = fr # processed cs"
| "processed (c # cs) = processed cs"

section \<open>The Cobra VAD adapter\<close>

text \<open>
  The argument of \<^verbatim>\<open>voice_confidence\<close>: a bytes object, or an object that does not
  offer the buffer interface.
\<close>

datatype pybuffer = Bytes "8 word list" | NotBytes

text \<open>Pairs of bytes as 16-bit samples, low byte first.\<close>

fun int16_le :: "8 word list \<Rightarrow> 16 word list" where
  "int16_le (lo # hi # rest) = word_cat hi lo # int16_le rest"
| "int16_le _ = []"

text \<open>
  \<^verbatim>\<open>np.frombuffer(buffer, dtype=np.int16)\<close>: raises when the object is no buffer or when
  its size is not a multiple of two bytes.
\<close>

definition frombuffer_int16 :: "pybuffer \<Rightarrow> exn + 16 word list" where
  "frombuffer_int16 buffer =
     (case buffer of
        NotBytes \<Rightarrow> Inl (TypeError ''a bytes-like object is required'')
      | Bytes bs \<Rightarrow>
          if length bs mod 2 \<noteq> 0
          then Inl (ValueError ''buffer size must be a multiple of element size'')
          else Inr (int16_le bs))"

text \<open>
  A Python \<^verbatim>\<open>float\<close>: a finite number, an infinity or not-a-number. \<open>float_lt\<close> is
  \<^verbatim>\<open><\<close> and \<open>float_le\<close> is \<^verbatim>\<open><=\<close>; every comparison with not-a-number is false.
\<close>

datatype pyfloat = Finite real | PosInf | NegInf | NaN

fun float_lt :: "pyfloat \<Rightarrow> pyfloat \<Rightarrow> bool" where
  "float_lt NaN _ = False"
| "float_lt _ NaN = False"
| "float_lt (Finite a) (Finite b) = (a < b)"
| "float_lt NegInf NegInf = False"
| "float_lt NegInf _ = True"
| "float_lt _ NegInf = False"
| "float_lt PosInf _ = False"
| "float_lt (Finite a) PosInf = True"

definition float_le :: "pyfloat \<Rightarrow> pyfloat \<Rightarrow> bool" where
  "float_le a b = (float_lt a b \<or> (a = b \<and> a \<noteq> NaN))"

text \<open>
  The body of the \<^verbatim>\<open>try\<close> block of \<^verbatim>\<open>voice_confidence\<close>, lines 90 to 100. The
  probability model \<^verbatim>\<open>self._cobra.process\<close> is the vendor's: it is a parameter, and it
  returns a float or raises. \<^verbatim>\<open>prob > 1.0\<close> is \<open>float_lt (Finite 1) prob\<close>.
\<close>

definition voice_confidence_try ::
  "(16 word list \<Rightarrow> exn + pyfloat) \<Rightarrow> pybuffer \<Rightarrow> exn + pyfloat" where
  "voice_confidence_try process buffer =
     (case frombuffer_int16 buffer of
        Inl e \<Rightarrow> Inl e
      | Inr pcm \<Rightarrow>
          (case process pcm of
             Inl e \<Rightarrow> Inl e
           | Inr prob \<Rightarrow>
               Inr (if float_lt prob (Finite 0) then Finite 0
                    else if float_lt (Finite 1) prob then Finite 1
                    else prob)))"

text \<open>\<^verbatim>\<open>voice_confidence\<close> with its \<^verbatim>\<open>except Exception\<close>, lines 89 to 103.\<close>

definition voice_confidence ::
  "(16 word list \<Rightarrow> exn + pyfloat) \<Rightarrow> pybuffer \<Rightarrow> exn + pyfloat" where
  "voice_confidence process buffer =
     (case voice_confidence_try process buffer of
        Inr prob \<Rightarrow> Inr prob
      | Inl e \<Rightarrow> Inr (Finite 0))"

text \<open>
  What \<^verbatim>\<open>pvcobra.create\<close> returns: the engine's frame length and, when the engine has
  the attribute, its sample rate.
\<close>

record cobra_engine =
  frame_length :: int
  engine_sample_rate :: "int option"

record CobraVADAnalyzer =
  cobra :: cobra_engine
  cobra_frame_length :: int
  cobra_sample_rate :: int

text \<open>
  \<^verbatim>\<open>CobraVADAnalyzer.__init__\<close>, lines 38 to 67. The first argument is the
  \<^verbatim>\<open>pvcobra\<close> module: \<open>None\<close> when it is not installed, its \<^verbatim>\<open>create\<close> function
  otherwise.
\<close>

definition CobraVADAnalyzer_init ::
  "(string \<Rightarrow> exn + cobra_engine) option \<Rightarrow> string \<Rightarrow> exn + CobraVADAnalyzer" where
  "CobraVADAnalyzer_init pvcobra access_key =
     (case pvcobra of
        None \<Rightarrow> Inl (ModuleNotFoundError ''No module named pvcobra'')
      | Some create \<Rightarrow>
          if access_key = []
          then Inl (ValueError ''CobraVADAnalyzer requires a Picovoice access key'')
          else (case create access_key of
                  Inl e \<Rightarrow> Inl e
                | Inr engine \<Rightarrow>
                    Inr \<lparr>cobra = engine,
                         cobra_frame_length = frame_length engine,
                         cobra_sample_rate =
                           (case engine_sample_rate engine of
                              None \<Rightarrow> 16000
                            | Some r \<Rightarrow> r)\<rparr>))"

section \<open>Selecting the VAD backend\<close>

text \<open>\<^verbatim>\<open>str.lower()\<close> on ASCII letters.\<close>

definition lower_char :: "char \<Rightarrow> char" where
  "lower_char c =
     (case map_of (zip ''ABCDEFGHIJKLMNOPQRSTUVWXYZ'' ''abcdefghijklmnopqrstuvwxyz'') c of
        Some l \<Rightarrow> l
      | None \<Rightarrow> c)"

definition lower :: "string \<Rightarrow> string" where
  "lower s = map lower_char s"

text \<open>\<^verbatim>\<open>os.getenv(name) or default\<close>: the default replaces an unset and an empty variable.\<close>

definition getenv_or :: "string option \<Rightarrow> string \<Rightarrow> string" where
  "getenv_or v dflt = (case v of None \<Rightarrow> dflt | Some x \<Rightarrow> if x = [] then dflt else x)"

text \<open>
  What \<^verbatim>\<open>create_vad\<close> reads from its surroundings: the two environment variables,
  whether importing \<^verbatim>\<open>univox.vad.cobra\<close> raises, the \<^verbatim>\<open>pvcobra\<close> module, and what
  importing and constructing \<^verbatim>\<open>SileroVADAnalyzer\<close> does.
\<close>

record vad_env =
  VAD_BACKEND :: "string option"
  PICOVOICE_ACCESS_KEY :: "string option"
  import_cobra :: "exn option"
  pvcobra_module :: "(string \<Rightarrow> exn + cobra_engine) option"
  silero :: "exn option"

datatype analyzer = Cobra CobraVADAnalyzer | Silero

text \<open>The second half of \<^verbatim>\<open>create_vad\<close>, lines 92 to 102.\<close>

definition create_silero :: "vad_env \<Rightarrow> exn + analyzer option" where
  "create_silero env =
     (case silero env of
        None \<Rightarrow> Inr (Some Silero)
      | Some (ModuleNotFoundError m) \<Rightarrow> Inr None
      | Some e \<Rightarrow> Inl e)"

text \<open>The \<^verbatim>\<open>try\<close> block of \<^verbatim>\<open>create_vad\<close>, lines 83 to 87.\<close>

definition create_cobra :: "vad_env \<Rightarrow> exn + CobraVADAnalyzer" where
  "create_cobra env =
     (case import_cobra env of
        Some e \<Rightarrow> Inl e
      | None \<Rightarrow>
          (let access_key = getenv_or (PICOVOICE_ACCESS_KEY env) []
           in CobraVADAnalyzer_init (pvcobra_module env) access_key))"

text \<open>\<^verbatim>\<open>create_vad\<close>, lines 79 to 102 of \<^verbatim>\<open>examples/basic_vad_pipecat.py\<close>.\<close>

definition create_vad :: "vad_env \<Rightarrow> exn + analyzer option" where
  "create_vad env =
     (let backend = lower (getenv_or (VAD_BACKEND env) ''silero'')
      in if backend = ''cobra'' then
           (case create_cobra env of
              Inr a \<Rightarrow> Inr (Some (Cobra a))
            | Inl e \<Rightarrow> create_silero env)
         else create_silero env)"

section \<open>Lemmas on dictionaries\<close>

lemma dict_get_set: "dict_get (dict_set d k v) k' = (if k' = k then Some v else dict_get d k')"
  by (simp add: dict_get_def dict_set_def update_conv')

lemma dict_get_update_absent:
  "k \<notin> fst ` set other \<Longrightarrow> dict_get (dict_update d other) k = dict_get d k"
proof (induction other arbitrary: d)
  case Nil
  then show ?case by (simp add: dict_update_def)
next
  case (Cons p other)
  obtain k' v' where p: "p = (k', v')" by (cases p)
  from Cons.prems p have ne: "k \<noteq> k'" and rest: "k \<notin> fst ` set other" by auto
  have "dict_get (dict_update d (p # other)) k = dict_get (dict_update (dict_set d k' v') other) k"
    by (simp add: dict_update_def p)
  also have "\<dots> = dict_get (dict_set d k' v') k"
    by (rule Cons.IH [OF rest])
  also have "\<dots> = dict_get d k"
    using ne by (simp add: dict_get_set)
  finally show ?case .
qed

lemma dict_get_update_present:
  "distinct (map fst other) \<Longrightarrow> dict_get other k = Some v \<Longrightarrow>
   dict_get (dict_update d other) k = Some v"
proof (induction other arbitrary: d)
  case Nil
  then show ?case by (simp add: dict_get_def)
next
  case (Cons p other)
  obtain k' v' where p: "p = (k', v')" by (cases p)
  have step: "dict_update d (p # other) = dict_update (dict_set d k' v') other"
    by (simp add: dict_update_def p)
  show ?case
  proof (cases "k = k'")
    case True
    with Cons.prems p have v: "v = v'" and absent: "k \<notin> fst ` set other"
      by (auto simp: dict_get_def)
    have "dict_get (dict_update (dict_set d k' v') other) k = dict_get (dict_set d k' v') k"
      by (rule dict_get_update_absent [OF absent])
    with True v step show ?thesis by (simp add: dict_get_set)
  next
    case False
    with Cons.prems p have d: "distinct (map fst other)" and g: "dict_get other k = Some v"
      by (auto simp: dict_get_def)
    from Cons.IH [OF d g] step show ?thesis by simp
  qed
qed

lemma dict_get_default_options:
  "dict_get default_options ''vad_events'' = Some (VBool False)"
  "dict_get default_options ''interim_results'' = Some (VBool True)"
  "dict_get default_options ''language'' = Some (VLang EN)"
  "dict_get default_options ''model'' = Some (VStr ''nova-3-general'')"
  by (simp_all add: dict_get_def default_options_def)

lemma merge_options_other_key:
  assumes "k \<noteq> ''model''" and "k \<noteq> ''language''"
  shows "dict_get (merge_options live_options) k =
         (case live_options of None \<Rightarrow> dict_get default_options k
          | Some lo \<Rightarrow> dict_get (dict_update default_options lo) k)"
  using assms
  by (auto simp: merge_options_def to_dict_def Let_def dict_get_set
           split: option.splits pyval.splits)

section \<open>Settings produced by the constructor\<close>

text \<open>
  Claim C1. Whatever the caller passes as \<^verbatim>\<open>live_options\<close> (nothing, or any options),
  the settings of the constructed provider have \<^verbatim>\<open>vad_events\<close> false when the caller's
  options do not contain the key \<^verbatim>\<open>vad_events\<close>, and \<^verbatim>\<open>interim_results\<close> true when
  they do not contain the key \<^verbatim>\<open>interim_results\<close>.
\<close>

theorem merge_vad_off_interim_on:
  "((\<forall>lo. live_options = Some lo \<longrightarrow> ''vad_events'' \<notin> fst ` set lo) \<longrightarrow>
      dict_get (settings (DeepgramProvider_init key url live_options ad)) ''vad_events''
        = Some (VBool False)) \<and>
   ((\<forall>lo. live_options = Some lo \<longrightarrow> ''interim_results'' \<notin> fst ` set lo) \<longrightarrow>
      dict_get (settings (DeepgramProvider_init key url live_options ad)) ''interim_results''
        = Some (VBool True))"
  by (cases live_options)
     (simp_all add: DeepgramProvider_init_def merge_options_other_key
        dict_get_update_absent dict_get_default_options)

theorem merge_vad_off_interim_on_witness:
  "dict_get (settings (DeepgramProvider_init ''key'' ''''
      (Some [(''model'', VStr ''nova-2''), (''language'', VStr ''fr'')]) None)) ''vad_events''
        = Some (VBool False) \<and>
   dict_get (settings (DeepgramProvider_init ''key'' ''''
      (Some [(''model'', VStr ''nova-2''), (''language'', VStr ''fr'')]) None)) ''interim_results''
        = Some (VBool True)"
  using merge_vad_off_interim_on
    [of "Some [(''model'', VStr ''nova-2''), (''language'', VStr ''fr'')]" "''key''" "''''" None]
  by simp

text \<open>
  Claim C10. When the caller's options carry the string \<^verbatim>\<open>"None"\<close> as their model, the
  settings of the constructed provider carry the default model \<^verbatim>\<open>"nova-3-general"\<close>
  instead. The caller's options are a dictionary, so their keys are distinct.
\<close>

theorem merge_model_None_replaced:
  assumes "distinct (map fst lo)" and "dict_get lo ''model'' = Some (VStr ''None'')"
  shows "dict_get (settings (DeepgramProvider_init key url (Some lo) ad)) ''model''
         = Some (VStr ''nova-3-general'')"
proof -
  have "dict_get (dict_update default_options lo) ''model'' = Some (VStr ''None'')"
    using assms by (rule dict_get_update_present)
  then show ?thesis
    by (simp add: DeepgramProvider_init_def merge_options_def to_dict_def Let_def
          default_model_def dict_get_set split: option.splits pyval.splits)
qed

theorem merge_model_None_replaced_witness:
  "dict_get (settings (DeepgramProvider_init ''key'' ''''
      (Some [(''model'', VStr ''None''), (''vad_events'', VBool True)]) None)) ''model''
   = Some (VStr ''nova-3-general'')"
  using merge_model_None_replaced
    [of "[(''model'', VStr ''None''), (''vad_events'', VBool True)]" "''key''" "''''" None]
  by (simp add: dict_get_def)

section \<open>The connection lifecycle\<close>

text \<open>
  What \<^verbatim>\<open>_connect\<close>, \<^verbatim>\<open>_disconnect\<close> and \<^verbatim>\<open>_reconnect\<close> do when the SDK calls they
  await return: the state they leave and the calls they make. \<^verbatim>\<open>_disconnect\<close> calls
  \<^verbatim>\<open>finish\<close> on every handle it finds, open or not.
\<close>

lemma connect_result:
  assumes "start_outcome k = Inr started"
  shows "connect k s =
          (None, s\<lparr>connection := Some (Handle started),
                   calls := calls s @ [Listen_v1, On Transcript, On Error,
                                       Start (settings s) (addons s)] @
                            (if started then []
                             else (case callbacks s of
                                     None \<Rightarrow> []
                                   | Some cb \<Rightarrow> [On_error cb connection_failed_message]))\<rparr>)"
  using assms by (simp add: connect_def log_call_def Let_def split: option.splits)

lemma disconnect_result:
  assumes "finish_outcome k = None"
  shows "disconnect k s =
          (None, s\<lparr>connection := None,
                   calls := calls s @ (if connection s = None then [] else [Finish])\<rparr>)"
  using assms
  by (simp add: disconnect_def is_connected_def log_call_def Let_def split: option.splits)

lemma reconnect_result:
  assumes "finish_outcome k = None" and "start_outcome k = Inr started"
  shows "reconnect k s =
          (None, s\<lparr>connection := Some (Handle started),
                   calls := calls s @ (if connection s = None then [] else [Finish]) @
                            [Listen_v1, On Transcript, On Error,
                             Start (settings s) (addons s)] @
                            (if started then []
                             else (case callbacks s of
                                     None \<Rightarrow> []
                                   | Some cb \<Rightarrow> [On_error cb connection_failed_message]))\<rparr>)"
  by (simp add: reconnect_def disconnect_result [OF assms(1)] connect_result [OF assms(2)])

text \<open>
  Claim C2. In every provider state, holding a handle or not, its socket open or not,
  and for every model and every language, \<^verbatim>\<open>set_model\<close> and \<^verbatim>\<open>set_language\<close> store
  the value in the settings and then run \<^verbatim>\<open>_disconnect\<close> once and \<^verbatim>\<open>_connect\<close> once,
  in that order, whether or not the value differs from the stored one. The disconnect
  leaves the provider without a handle, having called \<^verbatim>\<open>finish\<close> once on the handle it
  held, if it held one; the connect obtains one new handle, registers the two handlers
  and calls \<^verbatim>\<open>start\<close> once, with the updated settings. The SDK calls are taken to
  return; an exception raised by \<^verbatim>\<open>finish\<close> or \<^verbatim>\<open>start\<close> would leave the method at
  that point.
\<close>

theorem set_language_set_model_reconnect:
  assumes "finish_outcome k = None" and "start_outcome k = Inr started"
  shows
    "(let st = dict_set (settings s) ''model'' (VStr model)
      in set_model k model s =
           (None, s\<lparr>settings := st,
                    connection := Some (Handle started),
                    calls := calls s @ (if connection s = None then [] else [Finish]) @
                             [Listen_v1, On Transcript, On Error, Start st (addons s)] @
                             (if started then []
                              else (case callbacks s of
                                      None \<Rightarrow> []
                                    | Some cb \<Rightarrow> [On_error cb connection_failed_message]))\<rparr>) \<and>
         (\<exists>s2. disconnect k (s\<lparr>settings := st\<rparr>) = (None, s2) \<and> connection s2 = None \<and>
               set_model k model s = connect k s2)) \<and>
     (let st = dict_set (settings s) ''language''
                 (case lang of VLang l \<Rightarrow> VStr (lang_value l) | _ \<Rightarrow> lang)
      in set_language k lang s =
           (None, s\<lparr>settings := st,
                    connection := Some (Handle started),
                    calls := calls s @ (if connection s = None then [] else [Finish]) @
                             [Listen_v1, On Transcript, On Error, Start st (addons s)] @
                             (if started then []
                              else (case callbacks s of
                                      None \<Rightarrow> []
                                    | Some cb \<Rightarrow> [On_error cb connection_failed_message]))\<rparr>) \<and>
         (\<exists>s2. disconnect k (s\<lparr>settings := st\<rparr>) = (None, s2) \<and> connection s2 = None \<and>
               set_language k lang s = connect k s2))"
proof -
  have m: "set_model k model s =
             reconnect k (s\<lparr>settings := dict_set (settings s) ''model'' (VStr model)\<rparr>)"
    by (simp add: set_model_def Let_def)
  have l: "set_language k lang s =
             reconnect k (s\<lparr>settings := dict_set (settings s) ''language''
                 (case lang of VLang l \<Rightarrow> VStr (lang_value l) | _ \<Rightarrow> lang)\<rparr>)"
    by (simp add: set_language_def Let_def)
  have d: "\<And>t. \<exists>s2. disconnect k t = (None, s2) \<and> connection s2 = None \<and>
                     reconnect k t = connect k s2"
    by (simp add: reconnect_def disconnect_result [OF assms(1)])
  show ?thesis
    unfolding Let_def
    apply (intro conjI)
       apply (simp add: m reconnect_result [OF assms])
      apply (simp only: m d)
     apply (simp add: l reconnect_result [OF assms])
    apply (simp only: l d)
    done
qed

theorem set_language_set_model_reconnect_witness:
  "(let k = \<lparr>start_outcome = Inr True, finish_outcome = None, send_outcome = None,
              finalize_outcome = None\<rparr>;
        s = snd (start k 16000 (DeepgramProvider_init ''key'' '''' None None))
    in connection s = Some (Handle True) \<and>
       dict_get (settings s) ''model'' = Some (VStr ''nova-3-general'') \<and>
       settings (snd (set_model k ''nova-3-general'' s)) = settings s \<and>
       calls (snd (set_model k ''nova-3-general'' s)) =
         calls s @ [Finish, Listen_v1, On Transcript, On Error, Start (settings s) None])"
proof -
  let ?k = "\<lparr>start_outcome = Inr True, finish_outcome = None, send_outcome = None,
              finalize_outcome = None\<rparr>"
  let ?s = "snd (start ?k 16000 (DeepgramProvider_init ''key'' '''' None None))"
  have h1: "finish_outcome ?k = None" by simp
  have h2: "start_outcome ?k = Inr True" by simp
  have s: "?s = \<lparr>settings = dict_set (merge_options None) ''sample_rate'' (VInt 16000),
                  addons = None, api_key = ''key'', base_url = '''',
                  connection = Some (Handle True), callbacks = None, sample_rate = 16000,
                  calls = [Listen_v1, On Transcript, On Error,
                           Start (dict_set (merge_options None) ''sample_rate'' (VInt 16000))
                             None]\<rparr>"
    by (simp add: start_def connect_result [OF h2] DeepgramProvider_init_def Let_def)
  have st: "dict_set (merge_options None) ''sample_rate'' (VInt 16000) =
            [(''encoding'', VStr ''linear16''), (''language'', VStr ''en''),
             (''model'', VStr ''nova-3-general''), (''channels'', VInt 1),
             (''interim_results'', VBool True), (''smart_format'', VBool True),
             (''punctuate'', VBool True), (''profanity_filter'', VBool True),
             (''vad_events'', VBool False), (''sample_rate'', VInt 16000)]"
    by (simp add: merge_options_def to_dict_def default_options_def dict_get_def dict_set_def
          EN_def Let_def)
  have set: "settings ?s =
            [(''encoding'', VStr ''linear16''), (''language'', VStr ''en''),
             (''model'', VStr ''nova-3-general''), (''channels'', VInt 1),
             (''interim_results'', VBool True), (''smart_format'', VBool True),
             (''punctuate'', VBool True), (''profanity_filter'', VBool True),
             (''vad_events'', VBool False), (''sample_rate'', VInt 16000)]"
    by (simp add: s st)
  have con: "connection ?s = Some (Handle True)" and ad: "addons ?s = None"
    by (simp_all add: s)
  have upd: "dict_set (settings ?s) ''model'' (VStr ''nova-3-general'') = settings ?s"
    by (simp add: set dict_set_def)
  note t = set_language_set_model_reconnect [OF h1 h2, of ?s "''nova-3-general''" VNone,
             unfolded Let_def upd, THEN conjunct1, THEN conjunct1]
  have g: "dict_get (settings ?s) ''model'' = Some (VStr ''nova-3-general'')"
    by (simp add: set dict_get_def)
  show ?thesis
    unfolding Let_def by (simp add: t con ad g)
qed

section \<open>Inbound transcript events\<close>

text \<open>
  Claim C3. A transcript event with no alternative, or whose first alternative has the
  empty transcript, changes nothing: no callback is called. Any other event, when a sink
  is registered, makes exactly one call to the sink: a \<^verbatim>\<open>TranscriptEvent\<close> built from the
  first alternative (its text, the finality flag, the first language when pipecat knows
  it, the vendor result as payload), passed to \<^verbatim>\<open>on_final\<close> when the flag is true and
  to \<^verbatim>\<open>on_interim\<close> when it is false.
\<close>

theorem on_message_dispatch:
  "((alternatives (channel result) = [] \<or>
     (\<exists>alt rest. alternatives (channel result) = alt # rest \<and> transcript alt = [])) \<longrightarrow>
      on_message is_member result s = s) \<and>
   (\<forall>cb alt rest.
      callbacks s = Some cb \<and> alternatives (channel result) = alt # rest \<and>
      transcript alt \<noteq> [] \<longrightarrow>
      (let evt = \<lparr>evt_text = transcript alt,
                   is_final = r_is_final result,
                   language =
                     (case languages alt of
                        Some (l # _) \<Rightarrow> if is_member l then Some (Language l) else None
                      | _ \<Rightarrow> None),
                   provider_payload = result\<rparr>
       in calls (on_message is_member result s) =
            calls s @ [if r_is_final result then On_final cb evt else On_interim cb evt] \<and>
          on_message is_member result s =
            log_call (if r_is_final result then On_final cb evt else On_interim cb evt) s))"
  by (auto simp: on_message_def make_language_def log_call_def Let_def
           split: option.splits list.splits)

theorem on_message_dispatch_witness:
  "(let s = set_callbacks (Sink 0) (DeepgramProvider_init ''key'' '''' None None);
        hello = \<lparr>channel = \<lparr>alternatives = [\<lparr>transcript = ''hello'', languages = None\<rparr>]\<rparr>,
                  r_is_final = False\<rparr>;
        empty = \<lparr>channel = \<lparr>alternatives = [\<lparr>transcript = [], languages = None\<rparr>]\<rparr>,
                  r_is_final = True\<rparr>
    in calls (on_message (\<lambda>x. x = ''en'') hello s) =
         [On_interim (Sink 0)
            \<lparr>evt_text = ''hello'', is_final = False, language = None,
             provider_payload = hello\<rparr>] \<and>
       on_message (\<lambda>x. x = ''en'') empty s = s)"
proof -
  let ?s = "set_callbacks (Sink 0) (DeepgramProvider_init ''key'' '''' None None)"
  let ?hello = "\<lparr>channel = \<lparr>alternatives = [\<lparr>transcript = ''hello'', languages = None\<rparr>]\<rparr>,
                  r_is_final = False\<rparr>"
  let ?empty = "\<lparr>channel = \<lparr>alternatives = [\<lparr>transcript = [], languages = None\<rparr>]\<rparr>,
                  r_is_final = True\<rparr>"
  have c: "callbacks ?s = Some (Sink 0)" "calls ?s = []"
    by (simp_all add: set_callbacks_def DeepgramProvider_init_def)
  from on_message_dispatch [of ?hello "\<lambda>x. x = ''en''" ?s]
       on_message_dispatch [of ?empty "\<lambda>x. x = ''en''" ?s]
  show ?thesis
    by (simp add: Let_def c log_call_def)
qed

section \<open>Connection failure\<close>

text \<open>
  When \<^verbatim>\<open>start\<close> returns false, \<^verbatim>\<open>_connect\<close> raises nothing and, when a sink is
  registered, calls its \<^verbatim>\<open>on_error\<close> once with the failure message. The handle whose
  socket did not open stays in \<^verbatim>\<open>_connection\<close>.
\<close>

lemma connect_failure_result:
  assumes "start_outcome k = Inr False" and "callbacks s = Some cb"
  shows "connect k s =
           (None, s\<lparr>connection := Some (Handle False),
                    calls := calls s @ [Listen_v1, On Transcript, On Error,
                                        Start (settings s) (addons s),
                                        On_error cb connection_failed_message]\<rparr>)"
  using assms(2) by (simp add: connect_result [OF assms(1)])

text \<open>
  Claim C4. The claim asks for a clean disconnected state after a failed open. The
  code reports the failure and raises nothing, but it does not return to the
  disconnected state: \<^verbatim>\<open>_connection\<close> keeps the handle whose socket never opened,
  where the constructor and \<^verbatim>\<open>_disconnect\<close> leave \<open>None\<close>. Through that handle the
  later \<^verbatim>\<open>send_audio\<close>, \<^verbatim>\<open>finalize_utterance\<close> and \<^verbatim>\<open>stop\<close> all reach the SDK.
\<close>

theorem connect_failure_keeps_handle:
  "(let k = \<lparr>start_outcome = Inr False, finish_outcome = None, send_outcome = None,
              finalize_outcome = None\<rparr>;
        s0 = set_callbacks (Sink 0) (DeepgramProvider_init ''key'' '''' None None);
        s = snd (start k 16000 s0)
    in fst (start k 16000 s0) = None \<and>
       calls s =
         [Listen_v1, On Transcript, On Error, Start (settings s) None,
          On_error (Sink 0) ''Deepgram connection failed. Check API key and network.''] \<and>
       connection s0 = None \<and>
       connection s = Some (Handle False) \<and>
       calls (snd (send_audio k [1, 2] s)) = calls s @ [Send [1, 2]] \<and>
       calls (snd (finalize_utterance k s)) = calls s @ [Finalize] \<and>
       calls (snd (stop k s)) = calls s @ [Finish] \<and>
       connection (snd (stop k s)) = None)"
proof -
  let ?k = "\<lparr>start_outcome = Inr False, finish_outcome = None, send_outcome = None,
              finalize_outcome = None\<rparr>"
  have h: "start_outcome ?k = Inr False" by simp
  have f: "finish_outcome ?k = None" by simp
  show ?thesis
    by (simp add: Let_def start_def connect_result [OF h] disconnect_result [OF f] stop_def
          send_audio_def is_connected_def finalize_utterance_def log_call_def
          set_callbacks_def DeepgramProvider_init_def connection_failed_message_def)
qed

section \<open>Audio and finalisation without a connection\<close>

text \<open>
  While the provider holds no handle, \<^verbatim>\<open>send_audio\<close> returns without raising and
  without calling the SDK, whatever the buffer and whatever the SDK's \<^verbatim>\<open>send\<close> would
  have done. That is the case on a provider that was never started and after a
  \<^verbatim>\<open>stop\<close> or \<^verbatim>\<open>cancel\<close> that returned. While it holds one, the audio is passed to
  the handle.
\<close>

lemma send_audio_without_handle:
  "connection s = None \<Longrightarrow> send_audio k audio s = (None, s)"
  by (simp add: send_audio_def)

lemma send_audio_before_start:
  "send_audio k audio (DeepgramProvider_init key url live_options ad)
     = (None, DeepgramProvider_init key url live_options ad)"
  by (simp add: send_audio_def DeepgramProvider_init_def)

lemma send_audio_after_stop:
  "fst (stop k' s) = None \<Longrightarrow>
     send_audio k audio (snd (stop k' s)) = (None, snd (stop k' s))"
  "fst (cancel k' s) = None \<Longrightarrow>
     send_audio k audio (snd (cancel k' s)) = (None, snd (cancel k' s))"
  by (auto simp: send_audio_def stop_def cancel_def disconnect_def log_call_def Let_def
        is_connected_def split: option.splits if_splits)

lemma send_audio_with_handle:
  "connection s = Some h \<Longrightarrow> send_audio k audio s = (send_outcome k, log_call (Send audio) s)"
  by (simp add: send_audio_def is_connected_def)

text \<open>
  Claim C5. The claim holds before \<^verbatim>\<open>start\<close> and after \<^verbatim>\<open>stop\<close>, and fails in its
  third case, a handle that is held and not connected. The guard of \<^verbatim>\<open>send_audio\<close>
  reads \<^verbatim>\<open>is_connected\<close> without calling it, so it lets every held handle through: on
  the handle left by a failed open, \<^verbatim>\<open>send\<close> is called, and what it raises escapes
  \<^verbatim>\<open>send_audio\<close>.
\<close>

theorem send_audio_on_unconnected_handle:
  "(let k = \<lparr>start_outcome = Inr False, finish_outcome = None,
              send_outcome = Some (RuntimeError ''socket closed''), finalize_outcome = None\<rparr>;
        s = snd (start k 16000 (set_callbacks (Sink 0)
               (DeepgramProvider_init ''key'' '''' None None)))
    in connection s = Some (Handle False) \<and>
       send_audio k [1, 2, 3, 4] s =
         (Some (RuntimeError ''socket closed''), log_call (Send [1, 2, 3, 4]) s))"
proof -
  let ?k = "\<lparr>start_outcome = Inr False, finish_outcome = None,
              send_outcome = Some (RuntimeError ''socket closed''), finalize_outcome = None\<rparr>"
  have h: "start_outcome ?k = Inr False" by simp
  show ?thesis
    by (simp add: Let_def start_def connect_result [OF h] send_audio_def is_connected_def
          log_call_def set_callbacks_def DeepgramProvider_init_def)
qed



section \<open>Voice confidence\<close>

lemma frombuffer_int16_malformed:
  "frombuffer_int16 NotBytes = Inl (TypeError ''a bytes-like object is required'')"
  "odd (length bs) \<Longrightarrow>
     frombuffer_int16 (Bytes bs) = Inl (ValueError ''buffer size must be a multiple of element size'')"
  by (simp_all add: frombuffer_int16_def odd_iff_mod_2_eq_one)

text \<open>
  \<^verbatim>\<open>voice_confidence\<close> raises nothing, and returns 0 when anything inside fails: an
  object that is no buffer, a buffer with an odd number of bytes, a model that raises.
\<close>

lemma voice_confidence_returns:
  "\<exists>p. voice_confidence process buffer = Inr p"
  by (simp add: voice_confidence_def split: sum.splits)

lemma voice_confidence_failure:
  "voice_confidence_try process buffer = Inl e \<Longrightarrow>
     voice_confidence process buffer = Inr (Finite 0)"
  by (simp add: voice_confidence_def)

lemma voice_confidence_malformed:
  "voice_confidence process NotBytes = Inr (Finite 0)"
  "odd (length bs) \<Longrightarrow> voice_confidence process (Bytes bs) = Inr (Finite 0)"
  by (simp_all add: voice_confidence_def voice_confidence_try_def frombuffer_int16_malformed)

text \<open>The clamp brings every float into the interval, not-a-number excepted.\<close>

lemma float_lt_Finite_cases:
  "\<not> float_lt p (Finite 0) \<Longrightarrow> \<not> float_lt (Finite 1) p \<Longrightarrow>
     p = NaN \<or> (\<exists>r. p = Finite r \<and> 0 \<le> r \<and> r \<le> 1)"
  by (cases p) auto

lemma voice_confidence_range:
  assumes "voice_confidence process buffer = Inr p"
  shows "p = NaN \<or> (\<exists>r. p = Finite r \<and> 0 \<le> r \<and> r \<le> 1)"
proof (cases "voice_confidence_try process buffer")
  case (Inl e)
  with assms have "p = Finite 0" by (simp add: voice_confidence_def)
  then show ?thesis by simp
next
  case (Inr q)
  with assms have q: "q = p" by (simp add: voice_confidence_def)
  from Inr obtain prob where
    p: "p = (if float_lt prob (Finite 0) then Finite 0
             else if float_lt (Finite 1) prob then Finite 1 else prob)"
    unfolding q by (auto simp: voice_confidence_try_def split: sum.splits)
  show ?thesis
    using float_lt_Finite_cases [of prob] by (auto simp: p)
qed

text \<open>
  Claim C7. \<^verbatim>\<open>voice_confidence\<close> never raises, but its result is not always in the
  interval from 0 to 1: when the probability model returns not-a-number, both
  comparisons of the clamp are false and not-a-number is returned, which is neither at
  least 0 nor at most 1.
\<close>

theorem voice_confidence_nan:
  "voice_confidence (\<lambda>pcm. Inr NaN) (Bytes [0x34, 0x12]) = Inr NaN \<and>
   float_le (Finite 0) NaN = False \<and>
   float_le NaN (Finite 1) = False"
  by (simp add: voice_confidence_def voice_confidence_try_def frombuffer_int16_def float_le_def)

section \<open>Finalising on the end of speech\<close>

lemma processed_append: "processed (xs @ ys) = processed xs @ processed ys"
  by (induction xs rule: processed.induct) simp_all

lemma process_frame_returns: "fst (process_frame finalize_result fr trace) = None"
  by (simp add: process_frame_def Let_def split: frame.splits option.splits)

lemma processed_process_frame:
  "processed (snd (process_frame finalize_result fr trace)) = processed trace @ [fr]"
  by (simp add: process_frame_def Let_def processed_append split: frame.splits option.splits)

lemma process_frames_all:
  "fst (process_frames frames trace) = None \<and>
   processed (snd (process_frames frames trace)) = processed trace @ map snd frames"
proof (induction frames arbitrary: trace)
  case Nil
  then show ?case by simp
next
  case (Cons p frames)
  obtain f fr where p: "p = (f, fr)" by (cases p)
  obtain t where t: "process_frame f fr trace = (None, t)"
    using process_frame_returns [of f fr trace] by (cases "process_frame f fr trace") simp
  have pt: "processed t = processed trace @ [fr]"
    using processed_process_frame [of f fr trace] t by simp
  show ?case
    using Cons.IH [of t] by (simp add: p t pt)
qed

text \<open>
  Claim C8. On a \<^verbatim>\<open>UserStoppedSpeakingFrame\<close> the service calls the provider's
  \<^verbatim>\<open>finalize_utterance\<close> exactly once. When the call raises, the service pushes one
  error frame carrying the message and raises nothing itself; on any other frame it does
  not call \<^verbatim>\<open>finalize_utterance\<close>. So no frame of a sequence is lost: every frame
  handed to the service is processed, whatever the provider did on the frames before.
\<close>

theorem process_frame_finalize_guarded:
  "process_frame finalize_result UserStoppedSpeakingFrame trace =
     (None, trace @ [Super_process_frame UserStoppedSpeakingFrame, Provider_finalize_utterance] @
            (case finalize_result of
               None \<Rightarrow> []
             | Some e \<Rightarrow> [Push_error (ErrorFrame (''Univox finalize error: '' @ str_exn e))])) \<and>
   (fr \<noteq> UserStoppedSpeakingFrame \<longrightarrow>
      process_frame finalize_result fr trace = (None, trace @ [Super_process_frame fr])) \<and>
   fst (process_frames frames trace) = None \<and>
   processed (snd (process_frames frames trace)) = processed trace @ map snd frames"
proof (intro conjI)
  show "process_frame finalize_result UserStoppedSpeakingFrame trace =
     (None, trace @ [Super_process_frame UserStoppedSpeakingFrame, Provider_finalize_utterance] @
            (case finalize_result of
               None \<Rightarrow> []
             | Some e \<Rightarrow> [Push_error (ErrorFrame (''Univox finalize error: '' @ str_exn e))]))"
    by (simp add: process_frame_def Let_def split: option.splits)
next
  show "fr \<noteq> UserStoppedSpeakingFrame \<longrightarrow>
      process_frame finalize_result fr trace = (None, trace @ [Super_process_frame fr])"
    by (simp add: process_frame_def Let_def split: frame.splits)
next
  show "fst (process_frames frames trace) = None"
    by (simp add: process_frames_all)
next
  show "processed (snd (process_frames frames trace)) = processed trace @ map snd frames"
    by (simp add: process_frames_all)
qed

theorem process_frame_finalize_guarded_witness:
  "process_frames
     [(Some (RuntimeError ''socket closed''), UserStoppedSpeakingFrame),
      (None, InputAudioRawFrame [1, 2]),
      (None, UserStoppedSpeakingFrame)] [] =
   (None,
    [Super_process_frame UserStoppedSpeakingFrame, Provider_finalize_utterance,
     Push_error (ErrorFrame ''Univox finalize error: socket closed''),
     Super_process_frame (InputAudioRawFrame [1, 2]),
     Super_process_frame UserStoppedSpeakingFrame, Provider_finalize_utterance])"
proof -
  have ne: "InputAudioRawFrame [1, 2] \<noteq> UserStoppedSpeakingFrame" by simp
  note a = process_frame_finalize_guarded
             [of "Some (RuntimeError ''socket closed'')" "[]" "InputAudioRawFrame [1, 2]" "[]",
              THEN conjunct1]
  note b = process_frame_finalize_guarded
             [of None "[Super_process_frame UserStoppedSpeakingFrame, Provider_finalize_utterance,
                        Push_error (ErrorFrame ''Univox finalize error: socket closed'')]"
                 "InputAudioRawFrame [1, 2]" "[]",
              THEN conjunct2, THEN conjunct1, rule_format, OF ne]
  note c = process_frame_finalize_guarded
             [of None "[Super_process_frame UserStoppedSpeakingFrame, Provider_finalize_utterance,
                        Push_error (ErrorFrame ''Univox finalize error: socket closed''),
                        Super_process_frame (InputAudioRawFrame [1, 2])]"
                 "InputAudioRawFrame [1, 2]" "[]",
              THEN conjunct1]
  show ?thesis
    using a b c by simp
qed

section \<open>A missing Cobra credential\<close>

lemma create_silero_no_cobra: "create_silero env \<noteq> Inr (Some (Cobra a))"
  by (simp add: create_silero_def split: option.splits exn.splits)

lemma create_cobra_no_key:
  "getenv_or (PICOVOICE_ACCESS_KEY env) [] = [] \<Longrightarrow> \<exists>e. create_cobra env = Inl e"
  by (simp add: create_cobra_def CobraVADAnalyzer_init_def Let_def split: option.splits)

text \<open>
  Claim C9, as stated, fails. With the Cobra backend selected and no credential in the
  environment, constructing \<^verbatim>\<open>CobraVADAnalyzer\<close> raises \<^verbatim>\<open>ValueError\<close>, but
  \<^verbatim>\<open>create_vad\<close> catches it and returns the Silero analyzer: the error is degraded to
  the default backend, not raised.
\<close>

theorem create_vad_missing_key_counterexample:
  "VAD_BACKEND \<lparr>VAD_BACKEND = Some ''cobra'', PICOVOICE_ACCESS_KEY = None,
                 import_cobra = None, pvcobra_module = Some (Inl \<circ> RuntimeError),
                 silero = None\<rparr> = Some ''cobra'' \<and>
   PICOVOICE_ACCESS_KEY \<lparr>VAD_BACKEND = Some ''cobra'', PICOVOICE_ACCESS_KEY = None,
                 import_cobra = None, pvcobra_module = Some (Inl \<circ> RuntimeError),
                 silero = None\<rparr> = None \<and>
   create_cobra \<lparr>VAD_BACKEND = Some ''cobra'', PICOVOICE_ACCESS_KEY = None,
                 import_cobra = None, pvcobra_module = Some (Inl \<circ> RuntimeError),
                 silero = None\<rparr>
     = Inl (ValueError ''CobraVADAnalyzer requires a Picovoice access key'') \<and>
   create_vad \<lparr>VAD_BACKEND = Some ''cobra'', PICOVOICE_ACCESS_KEY = None,
                 import_cobra = None, pvcobra_module = Some (Inl \<circ> RuntimeError),
                 silero = None\<rparr>
     = Inr (Some Silero)"
  by (simp add: create_vad_def create_cobra_def CobraVADAnalyzer_init_def create_silero_def
        getenv_or_def lower_def lower_char_def)

text \<open>
  Claim C9, amended. The constructor of \<^verbatim>\<open>CobraVADAnalyzer\<close> raises when the
  credential is empty. \<^verbatim>\<open>create_vad\<close> never lets that error out: whenever the
  credential is absent (unset or empty), selected backend or not, it does what the
  default path does, and so does it whenever the selected backend is not Cobra. The
  default path never yields a Cobra analyzer, and yields Silero when Silero can be
  constructed.
\<close>

theorem cobra_credential_missing:
  "CobraVADAnalyzer_init (Some create) []
     = Inl (ValueError ''CobraVADAnalyzer requires a Picovoice access key'') \<and>
   (\<exists>e. CobraVADAnalyzer_init pvcobra [] = Inl e) \<and>
   (getenv_or (PICOVOICE_ACCESS_KEY env) [] = [] \<longrightarrow> create_vad env = create_silero env) \<and>
   (lower (getenv_or (VAD_BACKEND env) ''silero'') \<noteq> ''cobra'' \<longrightarrow>
      create_vad env = create_silero env) \<and>
   create_silero env \<noteq> Inr (Some (Cobra a)) \<and>
   (silero env = None \<longrightarrow> create_silero env = Inr (Some Silero))"
proof (intro conjI)
  show "CobraVADAnalyzer_init (Some create) []
          = Inl (ValueError ''CobraVADAnalyzer requires a Picovoice access key'')"
    by (simp add: CobraVADAnalyzer_init_def)
next
  show "\<exists>e. CobraVADAnalyzer_init pvcobra [] = Inl e"
    by (simp add: CobraVADAnalyzer_init_def split: option.splits)
next
  show "getenv_or (PICOVOICE_ACCESS_KEY env) [] = [] \<longrightarrow> create_vad env = create_silero env"
  proof
    assume "getenv_or (PICOVOICE_ACCESS_KEY env) [] = []"
    then obtain e where "create_cobra env = Inl e"
      using create_cobra_no_key by blast
    then show "create_vad env = create_silero env"
      by (simp add: create_vad_def Let_def)
  qed
next
  show "lower (getenv_or (VAD_BACKEND env) ''silero'') \<noteq> ''cobra'' \<longrightarrow>
          create_vad env = create_silero env"
    by (simp add: create_vad_def Let_def)
next
  show "create_silero env \<noteq> Inr (Some (Cobra a))"
    by (rule create_silero_no_cobra)
next
  show "silero env = None \<longrightarrow> create_silero env = Inr (Some Silero)"
    by (simp add: create_silero_def)
qed

theorem cobra_credential_missing_witness:
  "create_vad \<lparr>VAD_BACKEND = Some ''Cobra'', PICOVOICE_ACCESS_KEY = Some [],
               import_cobra = None, pvcobra_module = Some (Inl \<circ> RuntimeError),
               silero = None\<rparr> = Inr (Some Silero) \<and>
   create_vad \<lparr>VAD_BACKEND = None, PICOVOICE_ACCESS_KEY = None,
               import_cobra = None, pvcobra_module = Some (Inl \<circ> RuntimeError),
               silero = None\<rparr> = Inr (Some Silero)"
proof -
  let ?e1 = "\<lparr>VAD_BACKEND = Some ''Cobra'', PICOVOICE_ACCESS_KEY = Some [],
               import_cobra = None, pvcobra_module = Some (Inl \<circ> RuntimeError),
               silero = None\<rparr>"
  let ?e2 = "\<lparr>VAD_BACKEND = None, PICOVOICE_ACCESS_KEY = None,
               import_cobra = None, pvcobra_module = Some (Inl \<circ> RuntimeError),
               silero = None\<rparr>"
  have k1: "getenv_or (PICOVOICE_ACCESS_KEY ?e1) [] = []"
    by (simp add: getenv_or_def)
  have b2: "lower (getenv_or (VAD_BACKEND ?e2) ''silero'') \<noteq> ''cobra''"
    by (simp add: getenv_or_def lower_def lower_char_def)
  have s: "silero ?e1 = None" "silero ?e2 = None" by simp_all
  from cobra_credential_missing [where env = ?e1]
       cobra_credential_missing [where env = ?e2]
  show ?thesis
    using k1 b2 s by simp
qed

end
